theory Spec2Isabelle
  imports Complex_Main "HOL-Library.Sublist"
begin

section \<open>Python strings\<close>

text \<open>
  A Python \<open>str\<close> is a sequence of Unicode code points. It is modelled as a \<open>string\<close>, and
  a \<open>char\<close> stands for the code point of the same number, so the model covers the strings
  whose code points are below 256 (ASCII and the Latin-1 supplement). On these code points
  the classes below are exactly those of \<open>str.isspace\<close> (which \<open>str.strip\<close> uses),
  \<open>str.isdigit\<close> and \<open>str.lower\<close>: whitespace is U+0009 to U+000D, U+001C to U+0020, U+0085
  and U+00A0; the digits are 0 to 9 and the superscripts U+00B2, U+00B3 and U+00B9; the
  letters with a lowercase form are A to Z and U+00C0 to U+00DE without U+00D7, each 32
  below its lowercase form.
\<close>

definition py_isspace :: "char \<Rightarrow> bool" where
  "py_isspace c = (c \<in> set [CHR 0x09, CHR 0x0A, CHR 0x0B, CHR 0x0C, CHR 0x0D,
                             CHR 0x1C, CHR 0x1D, CHR 0x1E, CHR 0x1F, CHR 0x20,
                             CHR 0x85, CHR 0xA0])"

definition py_isdigit :: "char \<Rightarrow> bool" where
  "py_isdigit c = (c \<in> set (''0123456789'' @ [CHR 0xB2, CHR 0xB3, CHR 0xB9]))"

definition upper_letters :: string where
  "upper_letters = ''ABCDEFGHIJKLMNOPQRSTUVWXYZ'' @
          [CHR 0xC0, CHR 0xC1, CHR 0xC2, CHR 0xC3, CHR 0xC4, CHR 0xC5,
           CHR 0xC6, CHR 0xC7, CHR 0xC8, CHR 0xC9, CHR 0xCA, CHR 0xCB,
           CHR 0xCC, CHR 0xCD, CHR 0xCE, CHR 0xCF, CHR 0xD0, CHR 0xD1,
           CHR 0xD2, CHR 0xD3, CHR 0xD4, CHR 0xD5, CHR 0xD6, CHR 0xD8,
           CHR 0xD9, CHR 0xDA, CHR 0xDB, CHR 0xDC, CHR 0xDD, CHR 0xDE]"

definition lower_letters :: string where
  "lower_letters = ''abcdefghijklmnopqrstuvwxyz'' @
          [CHR 0xE0, CHR 0xE1, CHR 0xE2, CHR 0xE3, CHR 0xE4, CHR 0xE5,
           CHR 0xE6, CHR 0xE7, CHR 0xE8, CHR 0xE9, CHR 0xEA, CHR 0xEB,
           CHR 0xEC, CHR 0xED, CHR 0xEE, CHR 0xEF, CHR 0xF0, CHR 0xF1,
           CHR 0xF2, CHR 0xF3, CHR 0xF4, CHR 0xF5, CHR 0xF6, CHR 0xF8,
           CHR 0xF9, CHR 0xFA, CHR 0xFB, CHR 0xFC, CHR 0xFD, CHR 0xFE]"

definition py_lower_char :: "char \<Rightarrow> char" where
  "py_lower_char c =
     (case map_of (zip upper_letters lower_letters) c of
        None \<Rightarrow> c
      | Some l \<Rightarrow> l)"

definition py_lower :: "string \<Rightarrow> string" where
  "py_lower s = map py_lower_char s"

definition py_startswith :: "string \<Rightarrow> string \<Rightarrow> bool" where
  "py_startswith s p = (take (length p) s = p)"

definition py_lstrip :: "string \<Rightarrow> string" where
  "py_lstrip s = dropWhile py_isspace s"

definition py_rstrip :: "string \<Rightarrow> string" where
  "py_rstrip s = rev (dropWhile py_isspace (rev s))"

text \<open>\<open>s.strip()\<close>: leading and trailing whitespace removed.\<close>

definition py_strip :: "string \<Rightarrow> string" where
  "py_strip s = py_rstrip (py_lstrip s)"

text \<open>\<open>s.split(sep)\<close> for a one-character separator: always at least one piece.\<close>

fun py_split :: "char \<Rightarrow> string \<Rightarrow> string list" where
  "py_split sep [] = [[]]"
| "py_split sep (c # cs) =
     (if c = sep then [] # py_split sep cs
      else (case py_split sep cs of
              [] \<Rightarrow> [[c]]
            | piece # pieces \<Rightarrow> (c # piece) # pieces))"

text \<open>\<open>s.split(sep, 1)\<close>: at most one split, at the first occurrence of the separator.\<close>

definition py_split1 :: "char \<Rightarrow> string \<Rightarrow> string list" where
  "py_split1 sep s =
     (if sep \<in> set s
      then [takeWhile (\<lambda>c. c \<noteq> sep) s, tl (dropWhile (\<lambda>c. c \<noteq> sep) s)]
      else [s])"


section \<open>Step extraction (\<open>extract_steps\<close> in \<open>api/server.py\<close>)\<close>

text \<open>
  The body of the \<open>for line in lines\<close> loop: the raw line and the list \<open>steps\<close> built so
  far go in, the updated list comes out. \<open>xs[-1]\<close> is \<open>last xs\<close>; \<open>split\<close> never returns an
  empty list, and \<open>line[0]\<close> is read only behind the test that \<open>line\<close> is not empty.
\<close>

definition extract_body :: "string list \<Rightarrow> string \<Rightarrow> string list" where
  "extract_body steps raw =
     (let line = py_strip raw in
      if line \<noteq> [] \<and> (py_isdigit (hd line) \<or> py_startswith (py_lower line) ''step'') then
        let clean_step =
              (if py_isdigit (hd line) then
                 let clean_dot = py_strip (last (py_split1 (CHR ''.'') line))
                 in py_strip (last (py_split1 (CHR '')'') clean_dot))
               else if py_startswith (py_lower line) ''step'' then
                 py_strip (last (py_split1 (CHR '':'') line))
               else line)
        in if clean_step \<noteq> [] then steps @ [clean_step] else steps
      else steps)"

definition extract_steps :: "string \<Rightarrow> string list option" where
  "extract_steps text =
     (let lines = py_split (CHR 0x0A) text;
          steps = foldl extract_body [] lines
      in if steps \<noteq> [] then Some steps else None)"

subsection \<open>The extraction as the specification words it\<close>
















section \<open>Properties of step extraction\<close>

subsection \<open>Trimming\<close>








lemma lstrip_idem: "py_lstrip (py_lstrip s) = py_lstrip s"
  by (simp add: py_lstrip_def)


lemma strip_lstrip: "py_strip (py_lstrip s) = py_strip s"
  by (simp add: py_strip_def lstrip_idem)










subsection \<open>The specification's operations are those of the code\<close>























subsection \<open>Splitting, joining and cleaning\<close>


























section \<open>Claims about step extraction\<close>




text \<open>
  Claim C7. \<open>extract_steps\<close> maps the three example inputs of the specification to its
  example outputs: two numbered lines give their two texts, two \<open>Step n:\<close> lines give
  their two texts, and a plain sentence gives no steps (\<open>None\<close>).
\<close>

theorem extract_steps_examples:
  "extract_steps (''1. Open app'' @ [CHR 0x0A] @ ''2. Tap icon'' @ [CHR 0x0A])
     = Some [''Open app'', ''Tap icon'']
   \<and> extract_steps (''Step 1: Do X'' @ [CHR 0x0A] @ ''Step 2: Do Y'') = Some [''Do X'', ''Do Y'']
   \<and> extract_steps ''Just a sentence.'' = None"
  by code_simp




end
